theory Spec2Isabelle
  imports Complex_Main "HOL-Library.Char_ord" "HOL-Library.List_Lexorder" "HOL-Library.Sublist"
begin

section \<open>Numbers\<close>

text \<open>
  The script computes with IEEE doubles (pandas and numpy). A double is modelled by its
  exact value: a rational, or one of the three special values. Rounding and overflow
  of finite values are not modelled, and a decimal constant of the script (\<open>0.3\<close>,
  \<open>0.05\<close>) stands for its decimal value. Division by zero does not raise in pandas or
  numpy: it yields \<open>inf\<close>, \<open>-inf\<close> or \<open>nan\<close>.
\<close>

datatype pyfloat = Fin rat | PInf | NInf | NaN

text \<open>\<open>a / b\<close> on two integer columns or numpy integers (true division).\<close>

definition fdiv :: "int \<Rightarrow> int \<Rightarrow> pyfloat" where
  "fdiv a b =
     (if b = 0 then (if a = 0 then NaN else if 0 < a then PInf else NInf)
      else Fin (of_int a / of_int b))"

text \<open>\<open>x * c\<close> for a finite constant \<open>c\<close>.\<close>

fun fscale :: "rat \<Rightarrow> pyfloat \<Rightarrow> pyfloat" where
  "fscale c (Fin a) = Fin (a * c)"
| "fscale c NaN = NaN"
| "fscale c PInf = (if c = 0 then NaN else if 0 < c then PInf else NInf)"
| "fscale c NInf = (if c = 0 then NaN else if 0 < c then NInf else PInf)"

fun fadd :: "pyfloat \<Rightarrow> pyfloat \<Rightarrow> pyfloat" where
  "fadd (Fin a) (Fin b) = Fin (a + b)"
| "fadd NaN y = NaN"
| "fadd x NaN = NaN"
| "fadd PInf NInf = NaN"
| "fadd NInf PInf = NaN"
| "fadd PInf y = PInf"
| "fadd x PInf = PInf"
| "fadd NInf y = NInf"
| "fadd x NInf = NInf"

fun fneg :: "pyfloat \<Rightarrow> pyfloat" where
  "fneg (Fin a) = Fin (- a)"
| "fneg PInf = NInf"
| "fneg NInf = PInf"
| "fneg NaN = NaN"

definition fsub :: "pyfloat \<Rightarrow> pyfloat \<Rightarrow> pyfloat" where
  "fsub x y = fadd x (fneg y)"

text \<open>\<open>x < y\<close> on doubles; every comparison with \<open>nan\<close> is false.\<close>

fun fless :: "pyfloat \<Rightarrow> pyfloat \<Rightarrow> bool" where
  "fless NaN y = False"
| "fless x NaN = False"
| "fless (Fin a) (Fin b) = (a < b)"
| "fless x NInf = False"
| "fless NInf y = True"
| "fless PInf y = False"
| "fless x PInf = True"

section \<open>Tables\<close>

text \<open>
  One row of a calibration CSV file, with the columns \<open>N\<close>, \<open>R_min\<close> and
  \<open>success_rate\<close>. The first two are integer columns; nothing in the script restricts
  their sign.
\<close>

record obs =
  N :: int
  R_min :: int
  success_rate :: rat

text \<open>
  A DataFrame: the rows read from the file, and the column \<open>efficiency\<close>, which a
  frame has only after \<open>plot_cost_effectiveness\<close> has added it.
\<close>

record dataframe =
  rows :: "obs list"
  efficiency :: "pyfloat list option"

text \<open>\<open>df['N'] / df['R_min']\<close>: the quotient of the two columns, row by row.\<close>

definition efficiency_col :: "obs list \<Rightarrow> pyfloat list" where
  "efficiency_col rs = map (\<lambda>r. fdiv (N r) (R_min r)) rs"

section \<open>Errors, messages and the ResultSet\<close>

text \<open>The exceptions that the modelled statements can raise.\<close>

datatype error =
  IndexError    \<comment> \<open>\<open>.iloc[0]\<close> on a column without rows\<close>
| ValueError    \<comment> \<open>\<open>idxmax\<close> on a column without a value that is not \<open>nan\<close> (older versions of
                    pandas return \<open>nan\<close> there, and the \<open>.loc\<close> that follows raises \<open>KeyError\<close>)\<close>
| ReadError     \<comment> \<open>whatever \<open>pd.read_csv\<close> raises on a file it cannot parse\<close>

text \<open>The lines that the script prints, one constructor for each \<open>print\<close> statement.\<close>

datatype message =
  No_csv_files                 \<comment> \<open>\<open>Error: No se encontraron archivos CSV en ...\<close>\<close>
| Cannot_extract_B string      \<comment> \<open>\<open>Advertencia: No se pudo extraer B de ...\<close>\<close>
| Loaded string nat            \<comment> \<open>\<open>Cargado: ... (... puntos)\<close>\<close>
| No_baseline                  \<comment> \<open>\<open>Advertencia: No hay datos con B=0.0\<close>\<close>
| Saved string                 \<comment> \<open>\<open>Guardado: ...\<close>\<close>

text \<open>
  The dictionary \<open>data\<close>, from the value of \<open>B\<close> to its frame. A Python dictionary
  keeps its keys in the order of their first insertion, and the script reads that order
  (\<open>list(data.values())[0]\<close>), so the dictionary is a list of pairs with distinct keys.
  Each frame of the dictionary is an object of its own (one \<open>pd.read_csv\<close> call
  each), so a frame is stored by value.
\<close>

type_synonym resultset = "(rat \<times> dataframe) list"

text \<open>\<open>data[k] = v\<close>: a key already present keeps its place.\<close>

fun dict_set :: "('k \<times> 'v) list \<Rightarrow> 'k \<Rightarrow> 'v \<Rightarrow> ('k \<times> 'v) list" where
  "dict_set [] k v = [(k, v)]"
| "dict_set ((k', v') # kvs) k v =
     (if k' = k then (k, v) # kvs else (k', v') # dict_set kvs k v)"

section \<open>The cost-effectiveness chart\<close>

text \<open>
  \<open>Series.idxmax()\<close>: the label of the first greatest value, \<open>nan\<close> values skipped.
  The frames carry the labels \<open>0, 1, ..\<close> of \<open>read_csv\<close>, and a filtered frame keeps
  its rows' labels, so the label stands for the position in the column it is taken from.
  \<open>None\<close> is the case in which pandas raises: no value, or only \<open>nan\<close> values.
\<close>

fun idxmax_from :: "nat \<Rightarrow> pyfloat list \<Rightarrow> (nat \<times> pyfloat) option \<Rightarrow> (nat \<times> pyfloat) option" where
  "idxmax_from i [] best = best"
| "idxmax_from i (x # xs) best =
     idxmax_from (Suc i) xs
       (if x = NaN then best
        else case best of
               None \<Rightarrow> Some (i, x)
             | Some (j, y) \<Rightarrow> if fless y x then Some (i, x) else Some (j, y))"

definition idxmax :: "pyfloat list \<Rightarrow> nat option" where
  "idxmax xs = map_option fst (idxmax_from 0 xs None)"

text \<open>
  What the chart shows of the data: the slope of the ideal line (line 112) and the
  annotated optimum (lines 135 to 138).
\<close>

record cost_chart =
  ideal_ratio :: pyfloat
  optimal_n :: int
  optimal_r :: int
  optimal_eff :: pyfloat

text \<open>
  \<open>plot_cost_effectiveness(data, output_dir)\<close>. The result is the dictionary after the
  call, the lines printed, and the exception raised or the chart saved (\<open>None\<close> when the
  function returns at line 97). Line 102 assigns the column to the frame \<open>data[0.0]\<close>
  itself. The calls into matplotlib are not modelled.
\<close>

definition plot_cost_effectiveness ::
  "resultset \<Rightarrow> resultset \<times> message list \<times> (error + cost_chart option)" where
  "plot_cost_effectiveness data =
     (case map_of data 0 of
        None \<Rightarrow> (data, [No_baseline], Inr None)
      | Some df0 \<Rightarrow>
          let eff = efficiency_col (rows df0);
              df = df0\<lparr>efficiency := Some eff\<rparr>;
              data' = dict_set data 0 df
          in (case rows df of
               [] \<Rightarrow> (data', [], Inl IndexError)
             | r0 # _ \<Rightarrow>
                 (case idxmax eff of
                    None \<Rightarrow> (data', [], Inl ValueError)
                  | Some i \<Rightarrow>
                      (data', [Saved ''cost_effectiveness.png''],
                       Inr (Some \<lparr>ideal_ratio = fdiv (R_min r0) (N r0),
                                  optimal_n = N (rows df ! i),
                                  optimal_r = R_min (rows df ! i),
                                  optimal_eff = eff ! i\<rparr>)))))"

section \<open>The comparison chart\<close>

text \<open>\<open>Series.min()\<close> and \<open>Series.max()\<close> of an integer column: \<open>nan\<close> without rows.\<close>

definition col_min :: "int list \<Rightarrow> pyfloat" where
  "col_min xs = (case xs of [] \<Rightarrow> NaN | x # ys \<Rightarrow> Fin (of_int (fold min ys x)))"

definition col_max :: "int list \<Rightarrow> pyfloat" where
  "col_max xs = (case xs of [] \<Rightarrow> NaN | x # ys \<Rightarrow> Fin (of_int (fold max ys x)))"

text \<open>
  One curve of the chart (lines 55 to 66): the points with \<open>R_min \<le> 20\<close>, and the
  values of \<open>N\<close> that are marked with a cross at height 20.
\<close>

record comparison_series =
  series_B :: rat
  valid_points :: "(int \<times> int) list"
  failed_N :: "int list"

definition comparison_series_of :: "rat \<times> dataframe \<Rightarrow> comparison_series" where
  "comparison_series_of item =
     (let df = snd item;
          valid_df = filter (\<lambda>r. R_min r \<le> 20) (rows df);
          failed_df = filter (\<lambda>r. 20 < R_min r) (rows df)
      in \<lparr>series_B = fst item,
          valid_points = map (\<lambda>r. (N r, R_min r)) valid_df,
          failed_N = map N failed_df\<rparr>)"

text \<open>The arguments of \<open>axvspan\<close> (lines 77 to 82); \<open>None\<close> when no region is drawn.\<close>

definition low_load_region :: "resultset \<Rightarrow> (pyfloat \<times> pyfloat) option" where
  "low_load_region data =
     (case data of
        [] \<Rightarrow> None
      | item # _ \<Rightarrow>
          let first_df = snd item;
              n_range = fsub (col_max (map N (rows first_df))) (col_min (map N (rows first_df)))
          in Some (col_min (map N (rows first_df)),
                   fadd (col_min (map N (rows first_df))) (fscale (3 / 10) n_range)))"

record comparison_chart =
  curves :: "comparison_series list"
  low_load :: "(pyfloat \<times> pyfloat) option"

definition plot_r_vs_n_comparison :: "resultset \<Rightarrow> message list \<times> comparison_chart" where
  "plot_r_vs_n_comparison data =
     ([Saved ''r_vs_n_comparison.png''],
      \<lparr>curves = map comparison_series_of (sort_key fst data),
       low_load = low_load_region data\<rparr>)"

section \<open>The redundancy chart\<close>

text \<open>\<open>((r_with_b - r_baseline) / r_baseline) * 100\<close> (lines 204 and 284).\<close>

definition overhead_pct :: "int \<Rightarrow> int \<Rightarrow> pyfloat" where
  "overhead_pct r_with_b r_baseline = fscale 100 (fdiv (r_with_b - r_baseline) r_baseline)"

text \<open>
  The loop over the rows of \<open>df_b\<close> (lines 197 to 206). The result pairs each element
  of \<open>n_common\<close> with the element of \<open>overhead\<close> appended in the same step.
\<close>

fun overhead_rows :: "obs list \<Rightarrow> obs list \<Rightarrow> (int \<times> pyfloat) list" where
  "overhead_rows baseline_data [] = []"
| "overhead_rows baseline_data (row # rest) =
     (case filter (\<lambda>r. N r = N row) baseline_data of
        [] \<Rightarrow> overhead_rows baseline_data rest
      | m # _ \<Rightarrow> (N row, overhead_pct (R_min row) (R_min m)) # overhead_rows baseline_data rest)"

text \<open>The first panel (lines 159 to 175): the values of one curve, \<open>nan\<close> where no row matches.\<close>

definition r_values :: "resultset \<Rightarrow> int \<Rightarrow> pyfloat list" where
  "r_values data n_target =
     map (\<lambda>item. case filter (\<lambda>r. N r = n_target) (rows (snd item)) of
                    [] \<Rightarrow> NaN
                  | m # _ \<Rightarrow> Fin (of_int (R_min m)))
         (sort_key fst data)"

definition sample_n_values :: "int list" where
  "sample_n_values = [10, 20, 30, 40, 50]"

text \<open>
  The second panel (lines 185 to 210): \<open>None\<close> when \<open>data.get(0.0)\<close> is \<open>None\<close>, else the
  curves plotted, one for each other key whose \<open>overhead\<close> list is not empty.
\<close>

definition overhead_panel :: "resultset \<Rightarrow> (rat \<times> (int \<times> pyfloat) list) list option" where
  "overhead_panel data =
     (case map_of data 0 of
        None \<Rightarrow> None
      | Some baseline_data \<Rightarrow>
          Some (filter (\<lambda>c. snd c \<noteq> [])
                  (map (\<lambda>item. (fst item, overhead_rows (rows baseline_data) (rows (snd item))))
                     (filter (\<lambda>item. fst item \<noteq> 0) (sort_key fst data)))))"

record redundancy_chart =
  robots_vs_B :: "(int \<times> pyfloat list) list"
  overhead_curves :: "(rat \<times> (int \<times> pyfloat) list) list option"

definition plot_redundancy_analysis :: "resultset \<Rightarrow> message list \<times> redundancy_chart" where
  "plot_redundancy_analysis data =
     ([Saved ''redundancy_analysis.png''],
      \<lparr>robots_vs_B =
         (if data = [] then []
          else filter (\<lambda>c. \<not> list_all (\<lambda>v. v = NaN) (snd c))
                 (map (\<lambda>n. (n, r_values data n)) sample_n_values)),
       overhead_curves = overhead_panel data\<rparr>)"

section \<open>The report\<close>

text \<open>
  \<open>Series.mean()\<close> of a column of doubles: the \<open>nan\<close> values are skipped, and the mean of
  no value is \<open>nan\<close>.
\<close>

definition mean :: "pyfloat list \<Rightarrow> pyfloat" where
  "mean xs =
     (let vs = filter (\<lambda>v. v \<noteq> NaN) xs
      in if vs = [] then NaN else fscale (1 / of_nat (length vs)) (fold (\<lambda>v acc. fadd acc v) vs (Fin 0)))"

text \<open>
  The text of the report, one constructor for each \<open>f.write\<close> of
  \<open>generate_summary_report\<close>, with the values that the line formats. The text written
  is a function of this list.
\<close>

datatype report_item =
  Rule_line                        \<comment> \<open>line 230\<close>
| Title_line                       \<comment> \<open>line 231\<close>
| Rule_blank_line                  \<comment> \<open>line 232\<close>
| Table_heading rat                \<comment> \<open>line 235\<close>
| N_range_line pyfloat pyfloat     \<comment> \<open>line 236\<close>
| Robots_min_line pyfloat          \<comment> \<open>line 237\<close>
| Robots_max_line pyfloat          \<comment> \<open>line 238\<close>
| Avg_efficiency_line pyfloat      \<comment> \<open>line 244\<close>
| Avg_success_line pyfloat         \<comment> \<open>line 248\<close>
| Rec_rule_top                     \<comment> \<open>line 251\<close>
| Rec_title                        \<comment> \<open>line 252\<close>
| Rec_rule                         \<comment> \<open>line 253\<close>
| Optimal_heading                  \<comment> \<open>line 268\<close>
| Optimal_config int int           \<comment> \<open>line 269\<close>
| Optimal_efficiency pyfloat       \<comment> \<open>line 270\<close>
| Optimal_note                     \<comment> \<open>line 271\<close>
| Redundancy_heading               \<comment> \<open>line 273\<close>
| Redundancy_overhead pyfloat      \<comment> \<open>line 285\<close>
| Redundancy_example int int       \<comment> \<open>lines 286 and 287\<close>
| Scalability_heading              \<comment> \<open>line 289\<close>
| Scalability_linear               \<comment> \<open>line 290\<close>
| Scalability_plan                 \<comment> \<open>line 291\<close>
| Closing_rule                     \<comment> \<open>line 293\<close>

text \<open>The body of the loop over the tables (lines 235 to 248).\<close>

definition table_section :: "rat \<times> dataframe \<Rightarrow> report_item list" where
  "table_section item =
     (let df = snd item;
          df_valid = filter (\<lambda>r. R_min r \<le> 20) (rows df)
      in [Table_heading (fst item),
          N_range_line (col_min (map N (rows df))) (col_max (map N (rows df))),
          Robots_min_line (col_min (map R_min (rows df))),
          Robots_max_line (col_max (map R_min (rows df)))]
         @ (if df_valid = [] then []
            else [Avg_efficiency_line (mean (efficiency_col df_valid)),
                  Avg_success_line (fscale 100 (mean (map (\<lambda>r. Fin (success_rate r)) df_valid)))]))"

text \<open>The first recommendation (lines 255 to 271).\<close>

definition optimal_section :: "resultset \<Rightarrow> error + report_item list" where
  "optimal_section data =
     (case map_of data 0 of
        None \<Rightarrow> Inr []
      | Some df_base \<Rightarrow>
          let df_valid = filter (\<lambda>r. R_min r \<le> 20) (rows df_base)
          in if df_valid = [] then Inr []
             else (case idxmax (efficiency_col df_valid) of
                     None \<Rightarrow> Inl ValueError
                   | Some i \<Rightarrow>
                       Inr [Optimal_heading,
                            Optimal_config (N (df_valid ! i)) (R_min (df_valid ! i)),
                            Optimal_efficiency (efficiency_col df_valid ! i),
                            Optimal_note]))"

text \<open>The second recommendation (lines 273 to 287); \<open>0.05\<close> is the key \<open>1 / 20\<close>.\<close>

definition redundancy_section :: "resultset \<Rightarrow> report_item list" where
  "redundancy_section data =
     Redundancy_heading #
     (case map_of data 0 of
        None \<Rightarrow> []
      | Some df_0 \<Rightarrow>
          (case map_of data (1 / 20) of
             None \<Rightarrow> []
           | Some df_005 \<Rightarrow>
               (case filter (\<lambda>r. N r = 30) (rows df_0) of
                  [] \<Rightarrow> []
                | r_0 # _ \<Rightarrow>
                    (case filter (\<lambda>r. N r = 30) (rows df_005) of
                       [] \<Rightarrow> []
                     | r_005 # _ \<Rightarrow>
                         [Redundancy_overhead (overhead_pct (R_min r_005) (R_min r_0)),
                          Redundancy_example (R_min r_0) (R_min r_005)]))))"

text \<open>
  \<open>generate_summary_report(data, output_dir)\<close>: the lines printed, and the exception
  raised or the content of the report written.
\<close>

definition generate_summary_report :: "resultset \<Rightarrow> message list \<times> (error + report_item list)" where
  "generate_summary_report data =
     (case optimal_section data of
        Inl e \<Rightarrow> ([], Inl e)
      | Inr optimal \<Rightarrow>
          ([Saved ''analysis_report.txt''],
           Inr ([Rule_line, Title_line, Rule_blank_line]
                @ concat (map table_section (sort_key fst data))
                @ [Rec_rule_top, Rec_title, Rec_rule]
                @ optimal
                @ redundancy_section data
                @ [Scalability_heading, Scalability_linear, Scalability_plan, Closing_rule])))"

section \<open>The loader\<close>

text \<open>
  \<open>s.replace(old, "")\<close> for a non-empty \<open>old\<close>: every occurrence of \<open>old\<close> is removed,
  scanning from the left.
\<close>

function str_remove :: "string \<Rightarrow> string \<Rightarrow> string" where
  "str_remove old [] = []"
| "str_remove old (c # cs) =
     (if old \<noteq> [] \<and> take (length old) (c # cs) = old
      then str_remove old (drop (length old) (c # cs))
      else c # str_remove old cs)"
  by pat_completeness auto
termination
  by (relation "measure (\<lambda>(old, s). length s)") auto

text \<open>Line 30: the text from which \<open>B\<close> is decoded.\<close>

definition b_str :: "string \<Rightarrow> string" where
  "b_str filename = str_remove ''.csv'' (str_remove ''r_vs_n_B'' filename)"

text \<open>The pattern \<open>r_vs_n_B*.csv\<close> of line 20, on a file name of the directory.\<close>

definition glob_match :: "string \<Rightarrow> bool" where
  "glob_match name =
     (let rest = drop 8 name
      in take 8 name = ''r_vs_n_B'' \<and> 4 \<le> length rest \<and> drop (length rest - 4) rest = ''.csv'')"

text \<open>
  The loop of lines 27 to 39 over the sorted files. \<open>float_of\<close> stands for Python's
  \<open>float\<close> (\<open>None\<close> where it raises \<open>ValueError\<close>) and \<open>read_csv\<close> for \<open>pd.read_csv\<close> on
  the file of that name; an exception of \<open>read_csv\<close> is not caught.
\<close>

fun load_files ::
  "(string \<Rightarrow> rat option) \<Rightarrow> (string \<Rightarrow> error + dataframe) \<Rightarrow> string list \<Rightarrow>
   resultset \<Rightarrow> message list \<Rightarrow> message list \<times> (error + resultset)" where
  "load_files float_of read_csv [] data msgs = (msgs, Inr data)"
| "load_files float_of read_csv (filename # rest) data msgs =
     (case float_of (b_str filename) of
        None \<Rightarrow> load_files float_of read_csv rest data (msgs @ [Cannot_extract_B filename])
      | Some b_value \<Rightarrow>
          (case read_csv filename of
             Inl e \<Rightarrow> (msgs, Inl e)
           | Inr df \<Rightarrow>
               load_files float_of read_csv rest (dict_set data b_value df)
                 (msgs @ [Loaded filename (length (rows df))])))"

text \<open>
  \<open>load_calibration_data(results_dir)\<close>, on the names of the files of the directory.
  The result \<open>None\<close> is Python's \<open>None\<close> of line 24. All paths share the directory, so
  sorting the paths sorts the names; strings are compared character by character.
\<close>

definition load_calibration_data ::
  "(string \<Rightarrow> rat option) \<Rightarrow> (string \<Rightarrow> error + dataframe) \<Rightarrow> string list \<Rightarrow>
   message list \<times> (error + resultset option)" where
  "load_calibration_data float_of read_csv names =
     (let csv_files = filter glob_match names
      in if csv_files = [] then ([No_csv_files], Inr None)
         else (case load_files float_of read_csv (sort csv_files) [] [] of
                 (msgs, Inl e) \<Rightarrow> (msgs, Inl e)
               | (msgs, Inr data) \<Rightarrow> (msgs, Inr (Some data))))"

text \<open>
  Python's \<open>float\<close> on the decimal literals \<open>[sign] digits [. digits]\<close>, for the
  examples. The other texts that \<open>float\<close> accepts (an exponent, underscores, \<open>inf\<close>,
  \<open>nan\<close>, white space around the number) are outside this function: no general statement
  below depends on it.
\<close>

definition is_digit :: "char \<Rightarrow> bool" where
  "is_digit c = (c \<in> set ''0123456789'')"

fun digits_value :: "string \<Rightarrow> nat \<Rightarrow> nat" where
  "digits_value [] acc = acc"
| "digits_value (c # cs) acc = digits_value cs (10 * acc + (of_char c - 48))"

definition float_decimal :: "string \<Rightarrow> rat option" where
  "float_decimal s =
     (let negative = (take 1 s = ''-'');
          body = (if take 1 s = ''-'' \<or> take 1 s = ''+'' then drop 1 s else s);
          int_part = takeWhile (\<lambda>c. c \<noteq> CHR ''.'') body;
          frac_part = drop (Suc (length int_part)) body;
          digits = int_part @ frac_part
      in if digits \<noteq> [] \<and> list_all is_digit digits
         then Some ((if negative then - 1 else 1) * of_nat (digits_value digits 0) / 10 ^ length frac_part)
         else None)"

section \<open>The run\<close>

text \<open>
  Lines 325 to 331 of \<open>main\<close>: the three charts and the report, on the dictionary that
  \<open>plot_cost_effectiveness\<close> leaves. An exception ends the run. The result is the
  dictionary at the end, the lines printed by the four functions, and the exception.
\<close>

definition run_outputs :: "resultset \<Rightarrow> resultset \<times> message list \<times> error option" where
  "run_outputs data =
     (let m1 = fst (plot_r_vs_n_comparison data)
      in case plot_cost_effectiveness data of
           (data', m2, Inl e) \<Rightarrow> (data', m1 @ m2, Some e)
         | (data', m2, Inr chart) \<Rightarrow>
             (let m3 = fst (plot_redundancy_analysis data')
              in case generate_summary_report data' of
                   (m4, Inl e) \<Rightarrow> (data', m1 @ m2 @ m3 @ m4, Some e)
                 | (m4, Inr report) \<Rightarrow> (data', m1 @ m2 @ m3 @ m4, None)))"

section \<open>Observations used in the statements\<close>

text \<open>The key that a table heading of the report shows; \<open>None\<close> for every other line.\<close>

definition heading_key :: "report_item \<Rightarrow> rat option" where
  "heading_key it = (case it of Table_heading b \<Rightarrow> Some b | _ \<Rightarrow> None)"



section \<open>Overhead against the baseline\<close>

lemma filter_N_nonempty_iff: "filter (\<lambda>r. N r = n) base \<noteq> [] \<longleftrightarrow> n \<in> N ` set base"
  by (auto simp: filter_empty_conv)

lemma overhead_rows_eq:
  "overhead_rows base cmp =
     map (\<lambda>row. (N row, overhead_pct (R_min row) (R_min (hd (filter (\<lambda>r. N r = N row) base)))))
       (filter (\<lambda>row. N row \<in> N ` set base) cmp)"
proof (induction cmp)
  case Nil
  show ?case by simp
next
  case (Cons row rest)
  show ?case
  proof (cases "filter (\<lambda>r. N r = N row) base")
    case Nil
    then have "N row \<notin> N ` set base"
      using filter_N_nonempty_iff[of "N row" base] by simp
    with Nil Cons.IH show ?thesis by simp
  next
    case (Cons m ms)
    then have "N row \<in> N ` set base"
      using filter_N_nonempty_iff[of "N row" base] by simp
    with Cons Cons.IH show ?thesis by simp
  qed
qed

lemma overhead_pct_finite:
  "r_baseline \<noteq> 0 \<Longrightarrow>
   overhead_pct r_with_b r_baseline =
     Fin ((of_int r_with_b - of_int r_baseline) / of_int r_baseline * 100)"
  by (simp add: overhead_pct_def fdiv_def)

text \<open>
  C2. The overhead series has one entry for each row of the comparison table whose \<open>N\<close>
  occurs in the baseline table, in the order of the rows, and none for the other rows.
  The entry is computed from the row's \<open>R_min\<close> and the \<open>R_min\<close> of the first baseline row
  with that \<open>N\<close>; for a baseline value other than zero it is
  \<open>(r_with_b - r_baseline) / r_baseline * 100\<close>. The baseline row \<open>(N = 30, R_min = 5)\<close>
  and the comparison row \<open>(N = 30, R_min = 6)\<close> give the overhead 20.
\<close>

theorem overhead_series_matching:
  "overhead_rows base cmp =
     map (\<lambda>row. (N row, overhead_pct (R_min row) (R_min (hd (filter (\<lambda>r. N r = N row) base)))))
       (filter (\<lambda>row. N row \<in> N ` set base) cmp)
   \<and> (r_baseline \<noteq> 0 \<longrightarrow>
        overhead_pct r_with_b r_baseline =
          Fin ((of_int r_with_b - of_int r_baseline) / of_int r_baseline * 100))
   \<and> overhead_rows [\<lparr>N = 30, R_min = 5, success_rate = s\<rparr>] [\<lparr>N = 30, R_min = 6, success_rate = s'\<rparr>]
       = [(30, Fin 20)]"
  by (simp add: overhead_rows_eq overhead_pct_finite)

theorem overhead_series_matching_witness:
  "(5::int) \<noteq> 0
   \<and> overhead_rows [\<lparr>N = 30, R_min = 5, success_rate = 1\<rparr>, \<lparr>N = 40, R_min = 8, success_rate = 1\<rparr>]
        [\<lparr>N = 30, R_min = 6, success_rate = 1\<rparr>, \<lparr>N = 35, R_min = 7, success_rate = 1\<rparr>,
         \<lparr>N = 40, R_min = 10, success_rate = 1\<rparr>]
       = [(30, Fin 20), (40, Fin 25)]
   \<and> overhead_pct 6 5 = Fin 20"
  using overhead_series_matching
    [of "[\<lparr>N = 30, R_min = 5, success_rate = 1\<rparr>, \<lparr>N = 40, R_min = 8, success_rate = 1\<rparr>]"
        "[\<lparr>N = 30, R_min = 6, success_rate = 1\<rparr>, \<lparr>N = 35, R_min = 7, success_rate = 1\<rparr>,
         \<lparr>N = 40, R_min = 10, success_rate = 1\<rparr>]" 5 6 1 1]
  by (simp add: overhead_pct_def fdiv_def)

lemma first_match_self:
  "distinct (map N rs) \<Longrightarrow> row \<in> set rs \<Longrightarrow> filter (\<lambda>r. N r = N row) rs = [row]"
proof (induction rs)
  case Nil
  then show ?case by simp
next
  case (Cons a rs)
  show ?case
  proof (cases "a = row")
    case True
    with Cons.prems have "N row \<notin> N ` set rs" by simp
    then have "\<forall>r\<in>set rs. N r \<noteq> N row" by (metis imageI)
    then have "filter (\<lambda>r. N r = N row) rs = []" by (simp add: filter_empty_conv)
    with True show ?thesis by simp
  next
    case False
    with Cons.prems have "row \<in> set rs" "N a \<noteq> N row" by auto
    with Cons show ?thesis by simp
  qed
qed

lemma overhead_pct_self: "r \<noteq> 0 \<Longrightarrow> overhead_pct r r = Fin 0"
  by (simp add: overhead_pct_def fdiv_def)

text \<open>
  C8, as amended. A table in which the values of \<open>N\<close> are unique and no \<open>R_min\<close> is zero,
  compared against itself as its own baseline, has the overhead 0 in every row.
\<close>


theorem overhead_self_zero:
  assumes "distinct (map N rs)" and "\<forall>r\<in>set rs. R_min r \<noteq> 0"
  shows "overhead_rows rs rs = map (\<lambda>row. (N row, Fin 0)) rs"
proof -
  have "filter (\<lambda>row. N row \<in> N ` set rs) rs = rs" by (simp add: filter_id_conv)
  moreover have "\<forall>row\<in>set rs. overhead_pct (R_min row) (R_min (hd (filter (\<lambda>r. N r = N row) rs))) = Fin 0"
    using assms by (simp add: first_match_self overhead_pct_self)
  ultimately show ?thesis by (simp add: overhead_rows_eq)
qed

theorem overhead_self_zero_witness:
  "distinct (map N [\<lparr>N = 10, R_min = 2, success_rate = 1\<rparr>, \<lparr>N = 20, R_min = 4, success_rate = 1\<rparr>])
   \<and> R_min \<lparr>N = 10, R_min = 2, success_rate = 1\<rparr> \<noteq> 0
   \<and> R_min \<lparr>N = 20, R_min = 4, success_rate = 1\<rparr> \<noteq> 0
   \<and> overhead_rows [\<lparr>N = 10, R_min = 2, success_rate = 1\<rparr>, \<lparr>N = 20, R_min = 4, success_rate = 1\<rparr>]
        [\<lparr>N = 10, R_min = 2, success_rate = 1\<rparr>, \<lparr>N = 20, R_min = 4, success_rate = 1\<rparr>]
       = [(10, Fin 0), (20, Fin 0)]"
proof -
  have d: "distinct (map N [\<lparr>N = 10, R_min = 2, success_rate = 1\<rparr>, \<lparr>N = 20, R_min = 4, success_rate = 1\<rparr>])"
    by simp
  have p: "\<forall>r\<in>set [\<lparr>N = 10, R_min = 2, success_rate = 1\<rparr>, \<lparr>N = 20, R_min = 4, success_rate = 1\<rparr>].
         R_min r \<noteq> 0"
    by simp
  show ?thesis using d p overhead_self_zero [OF d p] by simp
qed

text \<open>
  The claim as the specification states it, for every table, fails: with the value of
  \<open>N\<close> twice, the second row is compared with the first and has the overhead 100; with
  \<open>R_min = 0\<close> the overhead is \<open>nan\<close>.
\<close>

theorem overhead_self_counterexample:
  "overhead_rows [\<lparr>N = 10, R_min = 2, success_rate = 1\<rparr>, \<lparr>N = 10, R_min = 4, success_rate = 1\<rparr>]
     [\<lparr>N = 10, R_min = 2, success_rate = 1\<rparr>, \<lparr>N = 10, R_min = 4, success_rate = 1\<rparr>]
     = [(10, Fin 0), (10, Fin 100)]
   \<and> overhead_rows [\<lparr>N = 10, R_min = 0, success_rate = 1\<rparr>] [\<lparr>N = 10, R_min = 0, success_rate = 1\<rparr>]
     = [(10, NaN)]"
  by (simp add: overhead_pct_def fdiv_def)

section \<open>The dictionary and the efficiency column\<close>

lemma map_of_dict_set_same: "map_of (dict_set data k v) k = Some v"
  by (induction data) auto

lemma map_of_dict_set_other: "k' \<noteq> k \<Longrightarrow> map_of (dict_set data k v) k' = map_of data k'"
  by (induction data) auto

lemma keys_dict_set_present: "map_of data k = Some w \<Longrightarrow> map fst (dict_set data k v) = map fst data"
  by (induction data) (auto split: if_splits)

lemma fst_plot_cost_effectiveness:
  "fst (plot_cost_effectiveness data) =
     (case map_of data 0 of
        None \<Rightarrow> data
      | Some df \<Rightarrow> dict_set data 0 (df\<lparr>efficiency := Some (efficiency_col (rows df))\<rparr>))"
  by (simp add: plot_cost_effectiveness_def Let_def split: option.splits list.splits)

lemma efficiency_col_nth:
  "i < length rs \<Longrightarrow>
   efficiency_col rs ! i =
     (if R_min (rs ! i) = 0
      then (if N (rs ! i) = 0 then NaN else if 0 < N (rs ! i) then PInf else NInf)
      else Fin (of_int (N (rs ! i)) / of_int (R_min (rs ! i))))"
  by (simp add: efficiency_col_def fdiv_def)

text \<open>
  C1, as amended. The efficiency column has a value for every row of the table, and no
  row is left out for an \<open>R_min\<close> that is not positive: the value is \<open>N / R_min\<close> where
  \<open>R_min\<close> is not zero, and \<open>nan\<close>, \<open>inf\<close> or \<open>-inf\<close> where it is zero. The chart stores
  this column in the baseline frame, and the report averages it over the rows with
  \<open>R_min \<le> 20\<close>.
\<close>

theorem efficiency_every_row:
  "length (efficiency_col rs) = length rs
   \<and> (\<forall>i<length rs.
         efficiency_col rs ! i =
           (if R_min (rs ! i) = 0
            then (if N (rs ! i) = 0 then NaN else if 0 < N (rs ! i) then PInf else NInf)
            else Fin (of_int (N (rs ! i)) / of_int (R_min (rs ! i)))))
   \<and> (map_of data 0 = Some df \<longrightarrow>
        map_of (fst (plot_cost_effectiveness data)) 0 =
          Some (df\<lparr>efficiency := Some (efficiency_col (rows df))\<rparr>))
   \<and> (filter (\<lambda>r. R_min r \<le> 20) (rows df) \<noteq> [] \<longrightarrow>
        Avg_efficiency_line (mean (efficiency_col (filter (\<lambda>r. R_min r \<le> 20) (rows df))))
          \<in> set (table_section (b, df)))"
proof -
  have "length (efficiency_col rs) = length rs" by (simp add: efficiency_col_def)
  moreover have "\<forall>i<length rs.
         efficiency_col rs ! i =
           (if R_min (rs ! i) = 0
            then (if N (rs ! i) = 0 then NaN else if 0 < N (rs ! i) then PInf else NInf)
            else Fin (of_int (N (rs ! i)) / of_int (R_min (rs ! i))))"
    using efficiency_col_nth by blast
  moreover have "map_of data 0 = Some df \<longrightarrow>
        map_of (fst (plot_cost_effectiveness data)) 0 =
          Some (df\<lparr>efficiency := Some (efficiency_col (rows df))\<rparr>)"
    by (simp add: fst_plot_cost_effectiveness map_of_dict_set_same)
  moreover have "filter (\<lambda>r. R_min r \<le> 20) (rows df) \<noteq> [] \<longrightarrow>
        Avg_efficiency_line (mean (efficiency_col (filter (\<lambda>r. R_min r \<le> 20) (rows df))))
          \<in> set (table_section (b, df))"
    by (simp add: table_section_def Let_def)
  ultimately show ?thesis by blast
qed

theorem efficiency_every_row_witness:
  "map_of [(0, \<lparr>rows = [\<lparr>N = 10, R_min = 5, success_rate = 1\<rparr>], efficiency = None\<rparr>)] (0::rat)
     = Some \<lparr>rows = [\<lparr>N = 10, R_min = 5, success_rate = 1\<rparr>], efficiency = None\<rparr>
   \<and> filter (\<lambda>r. R_min r \<le> 20) [\<lparr>N = 10, R_min = 5, success_rate = 1\<rparr>] \<noteq> []
   \<and> efficiency_col [\<lparr>N = 10, R_min = 5, success_rate = 1\<rparr>] ! 0 = Fin 2
   \<and> map_of (fst (plot_cost_effectiveness
         [(0, \<lparr>rows = [\<lparr>N = 10, R_min = 5, success_rate = 1\<rparr>], efficiency = None\<rparr>)])) 0
     = Some \<lparr>rows = [\<lparr>N = 10, R_min = 5, success_rate = 1\<rparr>], efficiency = Some [Fin 2]\<rparr>
   \<and> Avg_efficiency_line (Fin 2)
     \<in> set (table_section (0, \<lparr>rows = [\<lparr>N = 10, R_min = 5, success_rate = 1\<rparr>], efficiency = None\<rparr>))"
  using efficiency_every_row
    [of "[\<lparr>N = 10, R_min = 5, success_rate = 1\<rparr>]"
        "[(0, \<lparr>rows = [\<lparr>N = 10, R_min = 5, success_rate = 1\<rparr>], efficiency = None\<rparr>)]"
        "\<lparr>rows = [\<lparr>N = 10, R_min = 5, success_rate = 1\<rparr>], efficiency = None\<rparr>" 0]
  by (simp add: efficiency_col_def fdiv_def mean_def)

text \<open>
  The claim as the specification states it fails: a row with \<open>R_min = - 2\<close> and a row with
  \<open>R_min = 0\<close> both receive an efficiency, the second is the optimum that the chart
  annotates, and both enter the average of the report.
\<close>

theorem efficiency_nonpositive_counterexample:
  "plot_cost_effectiveness [(0, \<lparr>rows = [\<lparr>N = 10, R_min = 5, success_rate = 1\<rparr>, \<lparr>N = 12, R_min = - 2, success_rate = 1\<rparr>,
           \<lparr>N = 8, R_min = 0, success_rate = 1\<rparr>], efficiency = None\<rparr>)]
     = ([(0, \<lparr>rows = [\<lparr>N = 10, R_min = 5, success_rate = 1\<rparr>, \<lparr>N = 12, R_min = - 2, success_rate = 1\<rparr>,
           \<lparr>N = 8, R_min = 0, success_rate = 1\<rparr>], efficiency = Some [Fin 2, Fin (- 6), PInf]\<rparr>)],
        [Saved ''cost_effectiveness.png''],
        Inr (Some \<lparr>ideal_ratio = Fin (1 / 2), optimal_n = 8, optimal_r = 0, optimal_eff = PInf\<rparr>))
   \<and> table_section (0, \<lparr>rows = [\<lparr>N = 10, R_min = 5, success_rate = 1\<rparr>, \<lparr>N = 12, R_min = - 2, success_rate = 1\<rparr>,
           \<lparr>N = 8, R_min = 0, success_rate = 1\<rparr>], efficiency = None\<rparr>)
     = [Table_heading 0, N_range_line (Fin 8) (Fin 12), Robots_min_line (Fin (- 2)),
        Robots_max_line (Fin 5), Avg_efficiency_line PInf, Avg_success_line (Fin 100)]"
  by (simp add: plot_cost_effectiveness_def efficiency_col_def fdiv_def idxmax_def
      table_section_def mean_def col_min_def col_max_def)

text \<open>
  C10. \<open>plot_cost_effectiveness\<close> leaves the keys of the dictionary and their order as
  they are, and every frame under a key other than \<open>0.0\<close>; the baseline frame differs
  from the one before the call in its efficiency column only, its rows are the same.
  Without a baseline the dictionary is unchanged. This holds also where the function
  raises after line 102.
\<close>

theorem cost_chart_frame:
  "map fst (fst (plot_cost_effectiveness data)) = map fst data
   \<and> (\<forall>k. k \<noteq> 0 \<longrightarrow> map_of (fst (plot_cost_effectiveness data)) k = map_of data k)
   \<and> (\<forall>df. map_of data 0 = Some df \<longrightarrow>
         map_of (fst (plot_cost_effectiveness data)) 0 =
           Some (df\<lparr>efficiency := Some (efficiency_col (rows df))\<rparr>)
         \<and> rows (df\<lparr>efficiency := Some (efficiency_col (rows df))\<rparr>) = rows df)
   \<and> (map_of data 0 = None \<longrightarrow> fst (plot_cost_effectiveness data) = data)"
proof (cases "map_of data 0")
  case None
  then show ?thesis by (simp add: fst_plot_cost_effectiveness)
next
  case (Some df)
  then show ?thesis
    by (simp add: fst_plot_cost_effectiveness map_of_dict_set_same map_of_dict_set_other
        keys_dict_set_present)
qed

theorem cost_chart_frame_witness:
  "map_of [(0, \<lparr>rows = [\<lparr>N = 10, R_min = 5, success_rate = 1\<rparr>], efficiency = None\<rparr>),
           (1 / 20, \<lparr>rows = [\<lparr>N = 10, R_min = 6, success_rate = 1\<rparr>], efficiency = None\<rparr>)] (0::rat)
     = Some \<lparr>rows = [\<lparr>N = 10, R_min = 5, success_rate = 1\<rparr>], efficiency = None\<rparr>
   \<and> map_of (fst (plot_cost_effectiveness
         [(0, \<lparr>rows = [\<lparr>N = 10, R_min = 5, success_rate = 1\<rparr>], efficiency = None\<rparr>),
          (1 / 20, \<lparr>rows = [\<lparr>N = 10, R_min = 6, success_rate = 1\<rparr>], efficiency = None\<rparr>)])) 0
     = Some \<lparr>rows = [\<lparr>N = 10, R_min = 5, success_rate = 1\<rparr>], efficiency = Some [Fin 2]\<rparr>
   \<and> map_of (fst (plot_cost_effectiveness
         [(0, \<lparr>rows = [\<lparr>N = 10, R_min = 5, success_rate = 1\<rparr>], efficiency = None\<rparr>),
          (1 / 20, \<lparr>rows = [\<lparr>N = 10, R_min = 6, success_rate = 1\<rparr>], efficiency = None\<rparr>)])) (1 / 20)
     = Some \<lparr>rows = [\<lparr>N = 10, R_min = 6, success_rate = 1\<rparr>], efficiency = None\<rparr>"
  using cost_chart_frame
    [of "[(0, \<lparr>rows = [\<lparr>N = 10, R_min = 5, success_rate = 1\<rparr>], efficiency = None\<rparr>),
          (1 / 20, \<lparr>rows = [\<lparr>N = 10, R_min = 6, success_rate = 1\<rparr>], efficiency = None\<rparr>)]"]
  by (simp add: efficiency_col_def fdiv_def)

section \<open>A missing baseline\<close>

lemma overhead_panel_no_baseline: "map_of data 0 = None \<Longrightarrow> overhead_panel data = None"
  by (simp add: overhead_panel_def)

lemma optimal_section_no_baseline: "map_of data 0 = None \<Longrightarrow> optimal_section data = Inr []"
  by (simp add: optimal_section_def)

text \<open>
  C5, as amended. Without the key \<open>0.0\<close>, \<open>plot_cost_effectiveness\<close> prints its warning
  and returns without a chart and without an exception; \<open>plot_redundancy_analysis\<close> leaves
  the overhead panel out, prints no warning (only the line for the file it saves) and
  does not raise; the run goes on to the report.
\<close>

theorem missing_baseline_skips:
  assumes "map_of data 0 = None"
  shows "plot_cost_effectiveness data = (data, [No_baseline], Inr None)
   \<and> fst (plot_redundancy_analysis data) = [Saved ''redundancy_analysis.png'']
   \<and> overhead_curves (snd (plot_redundancy_analysis data)) = None
   \<and> run_outputs data =
       (data,
        [Saved ''r_vs_n_comparison.png'', No_baseline, Saved ''redundancy_analysis.png'',
         Saved ''analysis_report.txt''],
        None)"
proof -
  have a: "plot_cost_effectiveness data = (data, [No_baseline], Inr None)"
    using assms by (simp add: plot_cost_effectiveness_def)
  have b: "fst (plot_redundancy_analysis data) = [Saved ''redundancy_analysis.png'']"
    by (simp add: plot_redundancy_analysis_def)
  have c: "overhead_curves (snd (plot_redundancy_analysis data)) = None"
    using assms by (simp add: plot_redundancy_analysis_def overhead_panel_no_baseline)
  have d: "fst (plot_r_vs_n_comparison data) = [Saved ''r_vs_n_comparison.png'']"
    by (simp add: plot_r_vs_n_comparison_def)
  have e: "\<exists>report. generate_summary_report data = ([Saved ''analysis_report.txt''], Inr report)"
    using assms by (simp add: generate_summary_report_def optimal_section_no_baseline)
  then obtain report where r: "generate_summary_report data = ([Saved ''analysis_report.txt''], Inr report)"
    by blast
  have "run_outputs data =
       (data,
        [Saved ''r_vs_n_comparison.png'', No_baseline, Saved ''redundancy_analysis.png'',
         Saved ''analysis_report.txt''],
        None)"
    by (simp add: run_outputs_def a b d r)
  with a b c show ?thesis by simp
qed

theorem missing_baseline_skips_witness:
  "map_of [(1 / 20, \<lparr>rows = [\<lparr>N = 10, R_min = 6, success_rate = 1\<rparr>], efficiency = None\<rparr>)] (0::rat) = None
   \<and> plot_cost_effectiveness
        [(1 / 20, \<lparr>rows = [\<lparr>N = 10, R_min = 6, success_rate = 1\<rparr>], efficiency = None\<rparr>)]
       = ([(1 / 20, \<lparr>rows = [\<lparr>N = 10, R_min = 6, success_rate = 1\<rparr>], efficiency = None\<rparr>)],
          [No_baseline], Inr None)"
proof -
  have h: "map_of [(1 / 20, \<lparr>rows = [\<lparr>N = 10, R_min = 6, success_rate = 1\<rparr>], efficiency = None\<rparr>)] (0::rat) = None"
    by simp
  show ?thesis using h missing_baseline_skips [OF h] by simp
qed

text \<open>
  The claim as the specification states it fails for the overhead panel: it is skipped,
  and no warning is printed.
\<close>

theorem redundancy_no_warning_counterexample:
  "map_of [(1 / 20, \<lparr>rows = [\<lparr>N = 10, R_min = 6, success_rate = 1\<rparr>], efficiency = None\<rparr>)] (0::rat) = None
   \<and> plot_redundancy_analysis
        [(1 / 20, \<lparr>rows = [\<lparr>N = 10, R_min = 6, success_rate = 1\<rparr>], efficiency = None\<rparr>)]
       = ([Saved ''redundancy_analysis.png''],
          \<lparr>robots_vs_B = [(10, [Fin 6])], overhead_curves = None\<rparr>)
   \<and> No_baseline \<notin> set (fst (plot_redundancy_analysis
        [(1 / 20, \<lparr>rows = [\<lparr>N = 10, R_min = 6, success_rate = 1\<rparr>], efficiency = None\<rparr>)]))"
  by (simp add: plot_redundancy_analysis_def overhead_panel_def r_values_def sample_n_values_def)

section \<open>The optimum\<close>

lemma fless_trans_max: "x \<noteq> NaN \<Longrightarrow> \<not> fless y z \<Longrightarrow> fless y x \<Longrightarrow> \<not> fless x z"
  by (cases x; cases y; cases z) auto

lemma idxmax_from_spec:
  assumes "idxmax_from i xs best = Some (k, v)"
    and "\<forall>j y. best = Some (j, y) \<longrightarrow> y \<noteq> NaN"
  shows "v \<noteq> NaN
    \<and> (best = Some (k, v) \<or> (i \<le> k \<and> k < i + length xs \<and> xs ! (k - i) = v))
    \<and> (\<forall>j<length xs. \<not> fless v (xs ! j))
    \<and> (\<forall>j y. best = Some (j, y) \<longrightarrow> \<not> fless v y)"
  using assms
proof (induction xs arbitrary: i best)
  case Nil
  then show ?case by (cases v) auto
next
  case (Cons x xs)
  let ?b = "(if x = NaN then best
        else case best of
               None \<Rightarrow> Some (i, x)
             | Some (j, y) \<Rightarrow> if fless y x then Some (i, x) else Some (j, y))"
  have run: "idxmax_from (Suc i) xs ?b = Some (k, v)" using Cons.prems(1) by simp
  have nn: "\<forall>j y. ?b = Some (j, y) \<longrightarrow> y \<noteq> NaN"
    using Cons.prems(2) by (auto split: option.splits if_splits)
  note ih = Cons.IH[OF run nn]
  have v: "v \<noteq> NaN" using ih by blast
  have tailmax: "\<forall>j<length xs. \<not> fless v (xs ! j)" using ih by blast
  have bmax: "\<forall>j y. ?b = Some (j, y) \<longrightarrow> \<not> fless v y" using ih by blast
  have pos: "?b = Some (k, v) \<or> (Suc i \<le> k \<and> k < Suc i + length xs \<and> xs ! (k - Suc i) = v)"
    using ih by blast
  have x_le: "\<not> fless v x"
  proof (cases "x = NaN")
    case True
    then show ?thesis by (cases v) auto
  next
    case False
    show ?thesis
    proof (cases best)
      case None
      with False bmax show ?thesis by simp
    next
      case (Some p)
      obtain j y where p: "p = (j, y)" by (cases p)
      show ?thesis
      proof (cases "fless y x")
        case True
        with False Some p bmax show ?thesis by simp
      next
        case nl: False
        with False Some p bmax have "\<not> fless v y" by simp
        moreover have "y \<noteq> NaN" using Cons.prems(2) Some p by simp
        ultimately show ?thesis using nl False v
          by (cases v; cases y; cases x) auto
      qed
    qed
  qed
  have old_le: "\<forall>j y. best = Some (j, y) \<longrightarrow> \<not> fless v y"
  proof (intro allI impI)
    fix j y assume b: "best = Some (j, y)"
    show "\<not> fless v y"
    proof (cases "x = NaN \<or> \<not> fless y x")
      case True
      with b bmax show ?thesis by auto
    next
      case False
      with b have "?b = Some (i, x)" by simp
      with bmax have "\<not> fless v x" by simp
      moreover have "fless y x" using False by simp
      ultimately show ?thesis using v by (cases v; cases y; cases x) auto
    qed
  qed
  have allmax: "\<forall>j<length (x # xs). \<not> fless v ((x # xs) ! j)"
    using x_le tailmax by (auto simp: nth_Cons split: nat.splits)
  have place: "best = Some (k, v) \<or> (i \<le> k \<and> k < i + length (x # xs) \<and> (x # xs) ! (k - i) = v)"
    using pos
  proof
    assume e: "?b = Some (k, v)"
    then show ?thesis
      by (auto split: if_splits option.splits)
  next
    assume a: "Suc i \<le> k \<and> k < Suc i + length xs \<and> xs ! (k - Suc i) = v"
    then have "k - i = Suc (k - Suc i)" by arith
    with a show ?thesis by simp
  qed
  from v place allmax old_le show ?case by blast
qed

lemma idxmax_spec:
  assumes "idxmax xs = Some k"
  shows "k < length xs \<and> xs ! k \<noteq> NaN \<and> (\<forall>j<length xs. \<not> fless (xs ! k) (xs ! j))"
proof -
  from assms obtain v where r: "idxmax_from 0 xs None = Some (k, v)"
    by (auto simp: idxmax_def)
  from idxmax_from_spec[OF r] show ?thesis by auto
qed

lemma report_optimum_within_cap:
  assumes "optimal_section data = Inr items" and "Optimal_config n r \<in> set items"
    and "map_of data 0 = Some df"
  shows "\<exists>row \<in> set (rows df). N row = n \<and> R_min row = r \<and> R_min row \<le> 20
     \<and> (\<forall>other \<in> set (rows df). R_min other \<le> 20 \<longrightarrow>
           \<not> fless (fdiv (N row) (R_min row)) (fdiv (N other) (R_min other)))"
proof -
  let ?v = "filter (\<lambda>r. R_min r \<le> 20) (rows df)"
  from assms have ne: "?v \<noteq> []"
    by (auto simp: optimal_section_def Let_def split: if_splits)
  with assms obtain i where i: "idxmax (efficiency_col ?v) = Some i"
    and nr: "n = N (?v ! i)" "r = R_min (?v ! i)"
    by (auto simp: optimal_section_def Let_def split: option.splits)
  from idxmax_spec[OF i] have il: "i < length ?v"
    and mx: "\<forall>j<length ?v. \<not> fless (efficiency_col ?v ! i) (efficiency_col ?v ! j)"
    by (auto simp: efficiency_col_def)
  have mem: "?v ! i \<in> set ?v" using il by (rule nth_mem)
  have "\<forall>other \<in> set ?v. \<not> fless (fdiv (N (?v ! i)) (R_min (?v ! i))) (fdiv (N other) (R_min other))"
  proof
    fix other assume "other \<in> set ?v"
    then obtain j where "j < length ?v" "?v ! j = other" by (metis in_set_conv_nth)
    with mx il show "\<not> fless (fdiv (N (?v ! i)) (R_min (?v ! i))) (fdiv (N other) (R_min other))"
      by (auto simp: efficiency_col_def)
  qed
  with mem nr show ?thesis by (intro bexI[of _ "?v ! i"]) auto
qed

text \<open>
  C3, at a failing input: the baseline table with the rows \<open>(N = 10, R_min = 5)\<close> and
  \<open>(N = 100, R_min = 25)\<close>. The chart annotates the row with \<open>R_min = 25\<close>, above the cap
  of 20, as the optimum; the report (for which \<open>report_optimum_within_cap\<close> holds)
  selects the row with \<open>R_min = 5\<close> on the same table. A baseline table whose only row
  is above the cap still gets an optimum in the chart, and on a baseline table without
  rows the chart function raises.
\<close>

theorem cost_chart_optimum_above_cap:
  "plot_cost_effectiveness
     [(0, \<lparr>rows = [\<lparr>N = 10, R_min = 5, success_rate = 1\<rparr>, \<lparr>N = 100, R_min = 25, success_rate = 1 / 2\<rparr>],
           efficiency = None\<rparr>)]
     = ([(0, \<lparr>rows = [\<lparr>N = 10, R_min = 5, success_rate = 1\<rparr>,
                      \<lparr>N = 100, R_min = 25, success_rate = 1 / 2\<rparr>],
              efficiency = Some [Fin 2, Fin 4]\<rparr>)],
        [Saved ''cost_effectiveness.png''],
        Inr (Some \<lparr>ideal_ratio = Fin (1 / 2), optimal_n = 100, optimal_r = 25, optimal_eff = Fin 4\<rparr>))
   \<and> optimal_section
     [(0, \<lparr>rows = [\<lparr>N = 10, R_min = 5, success_rate = 1\<rparr>, \<lparr>N = 100, R_min = 25, success_rate = 1 / 2\<rparr>],
           efficiency = None\<rparr>)]
     = Inr [Optimal_heading, Optimal_config 10 5, Optimal_efficiency (Fin 2), Optimal_note]
   \<and> snd (snd (plot_cost_effectiveness
     [(0, \<lparr>rows = [\<lparr>N = 100, R_min = 25, success_rate = 1 / 2\<rparr>], efficiency = None\<rparr>)]))
     = Inr (Some \<lparr>ideal_ratio = Fin (1 / 4), optimal_n = 100, optimal_r = 25, optimal_eff = Fin 4\<rparr>)
   \<and> snd (snd (plot_cost_effectiveness [(0, \<lparr>rows = [], efficiency = None\<rparr>)])) = Inl IndexError"
  by (simp add: plot_cost_effectiveness_def efficiency_col_def fdiv_def idxmax_def optimal_section_def)

section \<open>The low-load region\<close>

lemma col_min_Min: "xs \<noteq> [] \<Longrightarrow> col_min xs = Fin (of_int (Min (set xs)))"
proof (cases xs)
  case Nil
  assume "xs \<noteq> []"
  with Nil show ?thesis by simp
next
  case (Cons a list)
  then show ?thesis using Min.set_eq_fold[of a list] by (simp add: col_min_def)
qed

lemma col_max_Max: "xs \<noteq> [] \<Longrightarrow> col_max xs = Fin (of_int (Max (set xs)))"
proof (cases xs)
  case Nil
  assume "xs \<noteq> []"
  with Nil show ?thesis by simp
next
  case (Cons a list)
  then show ?thesis using Max.set_eq_fold[of a list] by (simp add: col_max_def)
qed

lemma load_order_example:
  assumes "read_csv ''r_vs_n_B0.csv'' = Inr t0" and "read_csv ''r_vs_n_B0.05.csv'' = Inr t1"
  shows "load_calibration_data float_decimal read_csv [''r_vs_n_B0.csv'', ''r_vs_n_B0.05.csv'']
    = ([Loaded ''r_vs_n_B0.05.csv'' (length (rows t1)), Loaded ''r_vs_n_B0.csv'' (length (rows t0))],
       Inr (Some [(1 / 20, t1), (0, t0)]))"
proof -
  have s: "sort [''r_vs_n_B0.csv'', ''r_vs_n_B0.05.csv''] = [''r_vs_n_B0.05.csv'', ''r_vs_n_B0.csv'']"
    by simp
  have g: "filter glob_match [''r_vs_n_B0.csv'', ''r_vs_n_B0.05.csv'']
         = [''r_vs_n_B0.csv'', ''r_vs_n_B0.05.csv'']"
    by (simp add: glob_match_def)
  have f0: "float_decimal (b_str ''r_vs_n_B0.csv'') = Some 0"
    by (simp add: b_str_def float_decimal_def is_digit_def)
  have f1: "float_decimal (b_str ''r_vs_n_B0.05.csv'') = Some (1 / 20)"
    by (simp add: b_str_def float_decimal_def is_digit_def)
  show ?thesis
    unfolding load_calibration_data_def Let_def g s
    by (simp add: f0 f1 assms)
qed

text \<open>
  C9, as amended. The shaded region of the comparison chart is computed from the first
  table of the dictionary in insertion order, whether or not it is the baseline: it
  spans from the least \<open>N\<close> of that table to the least \<open>N\<close> plus 30% of the difference
  between its greatest and its least \<open>N\<close>; both bounds are \<open>nan\<close> when that table has no
  rows. No region is drawn for an empty dictionary.
\<close>

theorem low_load_region_first_table:
  "low_load (snd (plot_r_vs_n_comparison data)) = low_load_region data
   \<and> low_load_region [] = None
   \<and> low_load_region (item # rest) =
       (if rows (snd item) = [] then Some (NaN, NaN)
        else Some (Fin (of_int (Min (N ` set (rows (snd item))))),
                   Fin (of_int (Min (N ` set (rows (snd item))))
                        + (of_int (Max (N ` set (rows (snd item))))
                           - of_int (Min (N ` set (rows (snd item))))) * (3 / 10))))"
proof (cases "rows (snd item) = []")
  case True
  then show ?thesis
    by (simp add: plot_r_vs_n_comparison_def low_load_region_def Let_def col_min_def col_max_def
        fsub_def)
next
  case False
  then show ?thesis
    by (simp add: plot_r_vs_n_comparison_def low_load_region_def Let_def col_min_Min col_max_Max
        fsub_def)
qed

theorem low_load_region_first_table_witness:
  "low_load (snd (plot_r_vs_n_comparison
        [(1 / 20 :: rat, \<lparr>rows = [\<lparr>N = 20, R_min = 5, success_rate = 1\<rparr>,
                          \<lparr>N = 30, R_min = 7, success_rate = 1\<rparr>], efficiency = None\<rparr>),
         (0, \<lparr>rows = [\<lparr>N = 10, R_min = 2, success_rate = 1\<rparr>,
                    \<lparr>N = 50, R_min = 9, success_rate = 1\<rparr>], efficiency = None\<rparr>)]))
       = Some (Fin 20, Fin 23)
   \<and> low_load (snd (plot_r_vs_n_comparison
        [(1 / 20 :: rat, \<lparr>rows = [], efficiency = None\<rparr>),
         (0, \<lparr>rows = [\<lparr>N = 10, R_min = 2, success_rate = 1\<rparr>,
                    \<lparr>N = 50, R_min = 9, success_rate = 1\<rparr>], efficiency = None\<rparr>)]))
       = Some (NaN, NaN)"
  using low_load_region_first_table
    [of "[(1 / 20, \<lparr>rows = [\<lparr>N = 20, R_min = 5, success_rate = 1\<rparr>,
                          \<lparr>N = 30, R_min = 7, success_rate = 1\<rparr>], efficiency = None\<rparr>),
         (0, \<lparr>rows = [\<lparr>N = 10, R_min = 2, success_rate = 1\<rparr>,
                    \<lparr>N = 50, R_min = 9, success_rate = 1\<rparr>], efficiency = None\<rparr>)]"
        "(1 / 20, \<lparr>rows = [\<lparr>N = 20, R_min = 5, success_rate = 1\<rparr>,
                          \<lparr>N = 30, R_min = 7, success_rate = 1\<rparr>], efficiency = None\<rparr>)"
        "[(0, \<lparr>rows = [\<lparr>N = 10, R_min = 2, success_rate = 1\<rparr>,
                    \<lparr>N = 50, R_min = 9, success_rate = 1\<rparr>], efficiency = None\<rparr>)]"]
    low_load_region_first_table
    [of "[(1 / 20, \<lparr>rows = [], efficiency = None\<rparr>),
         (0, \<lparr>rows = [\<lparr>N = 10, R_min = 2, success_rate = 1\<rparr>,
                    \<lparr>N = 50, R_min = 9, success_rate = 1\<rparr>], efficiency = None\<rparr>)]"
        "(1 / 20, \<lparr>rows = [], efficiency = None\<rparr>)"
        "[(0, \<lparr>rows = [\<lparr>N = 10, R_min = 2, success_rate = 1\<rparr>,
                    \<lparr>N = 50, R_min = 9, success_rate = 1\<rparr>], efficiency = None\<rparr>)]"]
  by simp

text \<open>
  The claim as the specification states it fails where the baseline is not the first
  table: here the region is that of the table for \<open>B = 0.05\<close>, from 20 to 23, and the
  baseline table has the values 10 and 50. The loader builds a dictionary in this order
  from the files \<open>r_vs_n_B0.csv\<close> and \<open>r_vs_n_B0.05.csv\<close> (\<open>load_order_example\<close>).
\<close>

theorem low_load_region_counterexample:
  "map_of [(1 / 20, \<lparr>rows = [\<lparr>N = 20, R_min = 5, success_rate = 1\<rparr>,
                             \<lparr>N = 30, R_min = 7, success_rate = 1\<rparr>], efficiency = None\<rparr>),
           (0, \<lparr>rows = [\<lparr>N = 10, R_min = 2, success_rate = 1\<rparr>,
                        \<lparr>N = 50, R_min = 9, success_rate = 1\<rparr>], efficiency = None\<rparr>)] (0::rat)
     = Some \<lparr>rows = [\<lparr>N = 10, R_min = 2, success_rate = 1\<rparr>,
                     \<lparr>N = 50, R_min = 9, success_rate = 1\<rparr>], efficiency = None\<rparr>
   \<and> col_min (map N [\<lparr>N = 10, R_min = 2, success_rate = 1\<rparr>, \<lparr>N = 50, R_min = 9, success_rate = 1\<rparr>])
     = Fin 10
   \<and> col_max (map N [\<lparr>N = 10, R_min = 2, success_rate = 1\<rparr>, \<lparr>N = 50, R_min = 9, success_rate = 1\<rparr>])
     = Fin 50
   \<and> low_load (snd (plot_r_vs_n_comparison
        [(1 / 20, \<lparr>rows = [\<lparr>N = 20, R_min = 5, success_rate = 1\<rparr>,
                           \<lparr>N = 30, R_min = 7, success_rate = 1\<rparr>], efficiency = None\<rparr>),
         (0, \<lparr>rows = [\<lparr>N = 10, R_min = 2, success_rate = 1\<rparr>,
                      \<lparr>N = 50, R_min = 9, success_rate = 1\<rparr>], efficiency = None\<rparr>)]))
     = Some (Fin 20, Fin 23)"
  by (simp add: plot_r_vs_n_comparison_def low_load_region_def col_min_def col_max_def fsub_def)

section \<open>Sections of the report\<close>





lemma sort_key_fst_unique:
  assumes "distinct (map fst d1)" "distinct (map fst d2)" "set d1 = set d2"
  shows "sort_key fst d1 = sort_key fst d2"
proof (rule map_sorted_distinct_set_unique[where f = fst])
  show "inj_on fst (set (sort_key fst d1) \<union> set (sort_key fst d2))"
    using assms by (simp add: distinct_map)
  show "sorted (map fst (sort_key fst d1))" by (rule sorted_sort_key)
  show "sorted (map fst (sort_key fst d2))" by (rule sorted_sort_key)
  show "distinct (map fst (sort_key fst d1))" using assms(1) by (simp add: distinct_map)
  show "distinct (map fst (sort_key fst d2))" using assms(2) by (simp add: distinct_map)
  show "set (sort_key fst d1) = set (sort_key fst d2)" using assms(3) by simp
qed

lemma map_of_set_unique:
  assumes "distinct (map fst d1)" "distinct (map fst d2)" "set d1 = set d2"
  shows "map_of d1 = map_of d2"
  using assms by (simp add: map_of_inject_set)

lemma heading_keys_table_section: "List.map_filter heading_key (table_section item) = [fst item]"
  by (simp add: table_section_def Let_def List.map_filter_def heading_key_def)

lemma map_filter_append: "List.map_filter f (xs @ ys) = List.map_filter f xs @ List.map_filter f ys"
  by (simp add: List.map_filter_def)

lemma heading_keys_tables:
  "List.map_filter heading_key (concat (map table_section xs)) = map fst xs"
  by (induction xs) (simp_all add: map_filter_append heading_keys_table_section List.map_filter_simps)

lemma heading_keys_optimal:
  "optimal_section data = Inr items \<Longrightarrow> List.map_filter heading_key items = []"
  by (auto simp: optimal_section_def Let_def List.map_filter_def heading_key_def
      split: option.splits if_splits)

lemma heading_keys_redundancy: "List.map_filter heading_key (redundancy_section data) = []"
  by (simp add: redundancy_section_def List.map_filter_def heading_key_def
      split: option.splits list.splits)

lemma heading_keys_report:
  assumes "generate_summary_report data = (ms, Inr items)"
  shows "List.map_filter heading_key items = map fst (sort_key fst data)"
proof -
  from assms obtain opt where o: "optimal_section data = Inr opt"
    and it: "items = [Rule_line, Title_line, Rule_blank_line]
                @ concat (map table_section (sort_key fst data))
                @ [Rec_rule_top, Rec_title, Rec_rule]
                @ opt
                @ redundancy_section data
                @ [Scalability_heading, Scalability_linear, Scalability_plan, Closing_rule]"
    by (auto simp: generate_summary_report_def split: sum.splits)
  have a: "List.map_filter heading_key [Rule_line, Title_line, Rule_blank_line] = []"
    by (simp add: List.map_filter_def heading_key_def)
  have b: "List.map_filter heading_key [Rec_rule_top, Rec_title, Rec_rule] = []"
    by (simp add: List.map_filter_def heading_key_def)
  have c: "List.map_filter heading_key
             [Scalability_heading, Scalability_linear, Scalability_plan, Closing_rule] = []"
    by (simp add: List.map_filter_def heading_key_def)
  show ?thesis
    unfolding it map_filter_append a b c heading_keys_tables heading_keys_optimal[OF o]
      heading_keys_redundancy
    by simp
qed

lemma idxmax_from_None:
  "idxmax_from i xs best = None \<longleftrightarrow> best = None \<and> (\<forall>x\<in>set xs. x = NaN)"
  by (induction xs arbitrary: i best) (auto split: option.splits)

lemma idxmax_None: "idxmax xs = None \<longleftrightarrow> (\<forall>x\<in>set xs. x = NaN)"
  by (simp add: idxmax_def idxmax_from_None)

lemma fdiv_NaN: "fdiv a b = NaN \<longleftrightarrow> a = 0 \<and> b = 0"
  by (simp add: fdiv_def)

lemma optimal_section_raises:
  "(\<exists>e. optimal_section data = Inl e) \<longleftrightarrow>
     (\<exists>df. map_of data 0 = Some df
         \<and> filter (\<lambda>r. R_min r \<le> 20) (rows df) \<noteq> []
         \<and> (\<forall>r\<in>set (rows df). R_min r \<le> 20 \<longrightarrow> N r = 0 \<and> R_min r = 0))"
proof (cases "map_of data 0")
  case None
  then show ?thesis by (simp add: optimal_section_def)
next
  case (Some df)
  let ?v = "filter (\<lambda>r. R_min r \<le> 20) (rows df)"
  show ?thesis
  proof (cases "?v = []")
    case True
    with Some show ?thesis by (simp add: optimal_section_def)
  next
    case False
    have "(idxmax (efficiency_col ?v) = None) \<longleftrightarrow>
          (\<forall>r\<in>set (rows df). R_min r \<le> 20 \<longrightarrow> N r = 0 \<and> R_min r = 0)"
      by (auto simp: idxmax_None efficiency_col_def fdiv_NaN)
    with Some False show ?thesis
      by (auto simp: optimal_section_def Let_def split: option.splits)
  qed
qed

lemma report_returns_iff:
  "(\<exists>ms items. generate_summary_report data = (ms, Inr items)) \<longleftrightarrow>
     \<not> (\<exists>df. map_of data 0 = Some df
         \<and> filter (\<lambda>r. R_min r \<le> 20) (rows df) \<noteq> []
         \<and> (\<forall>r\<in>set (rows df). R_min r \<le> 20 \<longrightarrow> N r = 0 \<and> R_min r = 0))"
proof -
  have "(\<exists>ms items. generate_summary_report data = (ms, Inr items)) \<longleftrightarrow>
        \<not> (\<exists>e. optimal_section data = Inl e)"
    by (cases "optimal_section data") (simp_all add: generate_summary_report_def)
  then show ?thesis unfolding optimal_section_raises .
qed

text \<open>
  C7. The report is a function of the dictionary as a mapping: two dictionaries with the
  same keys and tables give the same result, whatever the order of insertion. The
  report is written in full unless the baseline has rows with \<open>R_min \<le> 20\<close> and all of
  them have \<open>N = 0\<close> and \<open>R_min = 0\<close> (then \<open>idxmax\<close> raises). The table headings of a
  report are in strictly ascending order of their keys, and they are the keys of the
  dictionary.
\<close>

theorem report_deterministic:
  assumes "distinct (map fst d1)" and "distinct (map fst d2)" and "set d1 = set d2"
  shows "generate_summary_report d1 = generate_summary_report d2
    \<and> ((\<exists>ms items. generate_summary_report d1 = (ms, Inr items)) \<longleftrightarrow>
         \<not> (\<exists>df. map_of d1 0 = Some df
            \<and> filter (\<lambda>r. R_min r \<le> 20) (rows df) \<noteq> []
            \<and> (\<forall>r\<in>set (rows df). R_min r \<le> 20 \<longrightarrow> N r = 0 \<and> R_min r = 0)))
    \<and> (\<forall>ms items. generate_summary_report d1 = (ms, Inr items) \<longrightarrow>
          sorted_wrt (<) (List.map_filter heading_key items)
          \<and> set (List.map_filter heading_key items) = fst ` set d1)"
proof -
  have s: "sort_key fst d1 = sort_key fst d2" using assms by (rule sort_key_fst_unique)
  have m: "map_of d1 = map_of d2" using assms by (rule map_of_set_unique)
  have o: "optimal_section d1 = optimal_section d2"
    unfolding optimal_section_def m by (rule refl)
  have r: "redundancy_section d1 = redundancy_section d2"
    unfolding redundancy_section_def m by (rule refl)
  have eq: "generate_summary_report d1 = generate_summary_report d2"
    unfolding generate_summary_report_def s o r by (rule refl)
  have ret: "(\<exists>ms items. generate_summary_report d1 = (ms, Inr items)) \<longleftrightarrow>
         \<not> (\<exists>df. map_of d1 0 = Some df
            \<and> filter (\<lambda>r. R_min r \<le> 20) (rows df) \<noteq> []
            \<and> (\<forall>r\<in>set (rows df). R_min r \<le> 20 \<longrightarrow> N r = 0 \<and> R_min r = 0))"
    by (rule report_returns_iff)
  have "sorted (map fst (sort_key fst d1))" by (rule sorted_sort_key)
  moreover have "distinct (map fst (sort_key fst d1))" using assms(1) by (simp add: distinct_map)
  ultimately have st: "sorted_wrt (<) (map fst (sort_key fst d1))"
    by (simp add: strict_sorted_iff)
  have ks: "set (map fst (sort_key fst d1)) = fst ` set d1" by simp
  have ord: "\<forall>ms items. generate_summary_report d1 = (ms, Inr items) \<longrightarrow>
          sorted_wrt (<) (List.map_filter heading_key items)
          \<and> set (List.map_filter heading_key items) = fst ` set d1"
    using st ks heading_keys_report by metis
  from eq ret ord show ?thesis by (intro conjI)
qed

theorem report_deterministic_witness:
  "distinct (map fst
     [(1 / 20 :: rat, \<lparr>rows = [\<lparr>N = 30, R_min = 6, success_rate = 1\<rparr>], efficiency = None\<rparr>),
      (0, \<lparr>rows = [\<lparr>N = 30, R_min = 5, success_rate = 1\<rparr>], efficiency = None\<rparr>)])
   \<and> distinct (map fst
     [(0 :: rat, \<lparr>rows = [\<lparr>N = 30, R_min = 5, success_rate = 1\<rparr>], efficiency = None\<rparr>),
      (1 / 20, \<lparr>rows = [\<lparr>N = 30, R_min = 6, success_rate = 1\<rparr>], efficiency = None\<rparr>)])
   \<and> set
     [(1 / 20 :: rat, \<lparr>rows = [\<lparr>N = 30, R_min = 6, success_rate = 1\<rparr>], efficiency = None\<rparr>),
      (0, \<lparr>rows = [\<lparr>N = 30, R_min = 5, success_rate = 1\<rparr>], efficiency = None\<rparr>)]
     = set
     [(0 :: rat, \<lparr>rows = [\<lparr>N = 30, R_min = 5, success_rate = 1\<rparr>], efficiency = None\<rparr>),
      (1 / 20, \<lparr>rows = [\<lparr>N = 30, R_min = 6, success_rate = 1\<rparr>], efficiency = None\<rparr>)]
   \<and> generate_summary_report
     [(1 / 20 :: rat, \<lparr>rows = [\<lparr>N = 30, R_min = 6, success_rate = 1\<rparr>], efficiency = None\<rparr>),
      (0, \<lparr>rows = [\<lparr>N = 30, R_min = 5, success_rate = 1\<rparr>], efficiency = None\<rparr>)]
     = generate_summary_report
     [(0 :: rat, \<lparr>rows = [\<lparr>N = 30, R_min = 5, success_rate = 1\<rparr>], efficiency = None\<rparr>),
      (1 / 20, \<lparr>rows = [\<lparr>N = 30, R_min = 6, success_rate = 1\<rparr>], efficiency = None\<rparr>)]
   \<and> generate_summary_report
     [(1 / 20 :: rat, \<lparr>rows = [\<lparr>N = 30, R_min = 6, success_rate = 1\<rparr>], efficiency = None\<rparr>),
      (0, \<lparr>rows = [\<lparr>N = 30, R_min = 5, success_rate = 1\<rparr>], efficiency = None\<rparr>)]
     = ([Saved ''analysis_report.txt''],
        Inr [Rule_line, Title_line, Rule_blank_line,
             Table_heading 0, N_range_line (Fin 30) (Fin 30), Robots_min_line (Fin 5),
             Robots_max_line (Fin 5), Avg_efficiency_line (Fin 6), Avg_success_line (Fin 100),
             Table_heading (1 / 20), N_range_line (Fin 30) (Fin 30), Robots_min_line (Fin 6),
             Robots_max_line (Fin 6), Avg_efficiency_line (Fin 5), Avg_success_line (Fin 100),
             Rec_rule_top, Rec_title, Rec_rule,
             Optimal_heading, Optimal_config 30 5, Optimal_efficiency (Fin 6), Optimal_note,
             Redundancy_heading, Redundancy_overhead (Fin 20), Redundancy_example 5 6,
             Scalability_heading, Scalability_linear, Scalability_plan, Closing_rule])"
proof -
  have h1: "distinct (map fst
     [(1 / 20 :: rat, \<lparr>rows = [\<lparr>N = 30, R_min = 6, success_rate = 1\<rparr>], efficiency = None\<rparr>),
      (0, \<lparr>rows = [\<lparr>N = 30, R_min = 5, success_rate = 1\<rparr>], efficiency = None\<rparr>)])"
    by simp
  have h2: "distinct (map fst
     [(0 :: rat, \<lparr>rows = [\<lparr>N = 30, R_min = 5, success_rate = 1\<rparr>], efficiency = None\<rparr>),
      (1 / 20, \<lparr>rows = [\<lparr>N = 30, R_min = 6, success_rate = 1\<rparr>], efficiency = None\<rparr>)])"
    by simp
  have h3: "set
     [(1 / 20 :: rat, \<lparr>rows = [\<lparr>N = 30, R_min = 6, success_rate = 1\<rparr>], efficiency = None\<rparr>),
      (0, \<lparr>rows = [\<lparr>N = 30, R_min = 5, success_rate = 1\<rparr>], efficiency = None\<rparr>)]
     = set
     [(0 :: rat, \<lparr>rows = [\<lparr>N = 30, R_min = 5, success_rate = 1\<rparr>], efficiency = None\<rparr>),
      (1 / 20, \<lparr>rows = [\<lparr>N = 30, R_min = 6, success_rate = 1\<rparr>], efficiency = None\<rparr>)]"
    by auto
  from report_deterministic [OF h1 h2 h3]
  have e: "generate_summary_report
     [(1 / 20 :: rat, \<lparr>rows = [\<lparr>N = 30, R_min = 6, success_rate = 1\<rparr>], efficiency = None\<rparr>),
      (0, \<lparr>rows = [\<lparr>N = 30, R_min = 5, success_rate = 1\<rparr>], efficiency = None\<rparr>)]
     = generate_summary_report
     [(0 :: rat, \<lparr>rows = [\<lparr>N = 30, R_min = 5, success_rate = 1\<rparr>], efficiency = None\<rparr>),
      (1 / 20, \<lparr>rows = [\<lparr>N = 30, R_min = 6, success_rate = 1\<rparr>], efficiency = None\<rparr>)]"
    by (rule conjunct1)
  have v: "generate_summary_report
     [(0 :: rat, \<lparr>rows = [\<lparr>N = 30, R_min = 5, success_rate = 1\<rparr>], efficiency = None\<rparr>),
      (1 / 20, \<lparr>rows = [\<lparr>N = 30, R_min = 6, success_rate = 1\<rparr>], efficiency = None\<rparr>)]
     = ([Saved ''analysis_report.txt''],
        Inr [Rule_line, Title_line, Rule_blank_line,
             Table_heading 0, N_range_line (Fin 30) (Fin 30), Robots_min_line (Fin 5),
             Robots_max_line (Fin 5), Avg_efficiency_line (Fin 6), Avg_success_line (Fin 100),
             Table_heading (1 / 20), N_range_line (Fin 30) (Fin 30), Robots_min_line (Fin 6),
             Robots_max_line (Fin 6), Avg_efficiency_line (Fin 5), Avg_success_line (Fin 100),
             Rec_rule_top, Rec_title, Rec_rule,
             Optimal_heading, Optimal_config 30 5, Optimal_efficiency (Fin 6), Optimal_note,
             Redundancy_heading, Redundancy_overhead (Fin 20), Redundancy_example 5 6,
             Scalability_heading, Scalability_linear, Scalability_plan, Closing_rule])"
    by (simp add: generate_summary_report_def optimal_section_def redundancy_section_def
        table_section_def col_min_def col_max_def mean_def efficiency_col_def fdiv_def
        idxmax_def overhead_pct_def)
  from e v have "generate_summary_report
     [(1 / 20 :: rat, \<lparr>rows = [\<lparr>N = 30, R_min = 6, success_rate = 1\<rparr>], efficiency = None\<rparr>),
      (0, \<lparr>rows = [\<lparr>N = 30, R_min = 5, success_rate = 1\<rparr>], efficiency = None\<rparr>)]
     = ([Saved ''analysis_report.txt''],
        Inr [Rule_line, Title_line, Rule_blank_line,
             Table_heading 0, N_range_line (Fin 30) (Fin 30), Robots_min_line (Fin 5),
             Robots_max_line (Fin 5), Avg_efficiency_line (Fin 6), Avg_success_line (Fin 100),
             Table_heading (1 / 20), N_range_line (Fin 30) (Fin 30), Robots_min_line (Fin 6),
             Robots_max_line (Fin 6), Avg_efficiency_line (Fin 5), Avg_success_line (Fin 100),
             Rec_rule_top, Rec_title, Rec_rule,
             Optimal_heading, Optimal_config 30 5, Optimal_efficiency (Fin 6), Optimal_note,
             Redundancy_heading, Redundancy_overhead (Fin 20), Redundancy_example 5 6,
             Scalability_heading, Scalability_linear, Scalability_plan, Closing_rule])"
    by (rule trans)
  with h1 h2 h3 e show ?thesis by (intro conjI)
qed

section \<open>Loading\<close>




















end
